theory Spec2Isabelle
  imports Main
begin

section \<open>Values of the program\<close>

text \<open>
  The component \<open>AuthProvider\<close> (AuthProvider.tsx) keeps a session state
  (\<open>authState\<close>), four slots of the browser's local storage (identity token, access
  token, refresh token, nonce) and a one-shot flag (\<open>effectDidRunRef\<close>). Its
  operations call helpers whose code is elsewhere: a token validator, a PKCE generator, a
  nonce generator and four remote calls.

  A JavaScript value that is a string, \<open>null\<close> or \<open>undefined\<close> is a
  \<open>string option\<close>: \<open>None\<close> is the absent value. A helper that returns
  a promise either resolves with a value (\<open>Inr\<close>) or rejects (\<open>Inl Thrown\<close>).
\<close>

datatype error = Thrown

text \<open>JavaScript truthiness of a string-or-absent value: absent and the empty string are falsy.\<close>

definition truthy :: "string option \<Rightarrow> bool" where
  "truthy v = (case v of None \<Rightarrow> False | Some s \<Rightarrow> s \<noteq> [])"

text \<open>The JavaScript expression \<open>v || d\<close> on a string-or-absent \<open>v\<close> and a string \<open>d\<close>.\<close>

definition or_else :: "string option \<Rightarrow> string \<Rightarrow> string" where
  "or_else v d = (case v of None \<Rightarrow> d | Some s \<Rightarrow> if s = [] then d else s)"

text \<open>Modelled from the spec: the grant types \<open>AUTH_TYPES.PASSWORD\<close> and
  \<open>AUTH_TYPES.CODE\<close> of the package auth-common, which is not among the sources; the
  spec gives a login request the type PASSWORD or CODE.\<close>

datatype auth_type = PASSWORD | CODE

text \<open>Modelled from the spec: the constant \<open>LOGIN_ERROR\<close> of common/constants, a file
  that is not among the sources; the spec names the reason "login failed".\<close>

definition LOGIN_ERROR :: string where
  "LOGIN_ERROR = ''login failed''"

text \<open>Modelled from the spec: the constant \<open>EXPIRED_SESSION\<close> of common/constants, a
  file that is not among the sources; the spec names the reason "expired session".\<close>

definition EXPIRED_SESSION :: string where
  "EXPIRED_SESSION = ''expired session''"

text \<open>Modelled from the spec: the constant \<open>ACCESS_TOKEN_ERROR\<close> of common/constants, a
  file that is not among the sources; the spec names the reason "access token error".\<close>

definition ACCESS_TOKEN_ERROR :: string where
  "ACCESS_TOKEN_ERROR = ''access token error''"

text \<open>Modelled from the spec: the constant \<open>LOGOUT_SESSION\<close> of common/constants, a file
  that is not among the sources; the spec names the reason "logout".\<close>

definition LOGOUT_SESSION :: string where
  "LOGOUT_SESSION = ''logout''"

section \<open>The session state and the persisted slots\<close>

text \<open>The object \<open>user\<close> of the session state. \<open>userId\<close> comes from a JWT claim
  or from the response of the token exchange, so it can be absent.\<close>

record auth_user =
  userId :: "string option"
  username :: "string option"

text \<open>\<open>AuthState\<close>, lines 53-58. The object literal of lines 196-203 has no
  \<open>logoutReason\<close> property, so the field can be absent.\<close>

record auth_state =
  isLoading :: bool
  isAuthenticated :: bool
  user :: "auth_user option"
  logoutReason :: "string option"

text \<open>The props of the component.\<close>

record props =
  clientId :: string
  sessionExpiration :: "string option"

section \<open>The helpers the component calls\<close>

text \<open>The payload of a verified JWT, read at the keys \<open>JWT.USER_ID_KEY\<close> and
  \<open>JWT.USERNAME_KEY\<close>; a claim that is missing reads as absent.\<close>

record jwt =
  payload_userId :: "string option"
  payload_username :: "string option"

record pkce_pair =
  code_verifier :: string
  code_challenge :: string

text \<open>The argument objects of the four remote calls, field by field as the source builds them.\<close>

record preauth_args =
  pa_nonce :: string
  pa_clientId :: string
  pa_code_challenge :: string

record authenticate_args =
  au_username :: string
  au_password :: string
  au_clientId :: string
  au_sessionExpiration :: "string option"
  au_nonce :: string
  au_type :: auth_type
  au_code :: "string option"
  au_code_verifier :: "string option"

record logout_args =
  lo_idToken :: "string option"
  lo_accessToken :: "string option"
  lo_refreshToken :: "string option"
  lo_clientId :: string

record refresh_args =
  rf_clientId :: string
  rf_userId :: "string option"
  rf_nonce :: "string option"

text \<open>The responses the source reads: \<open>status\<close> and \<open>code\<close> of the pre-auth
  response; \<open>status\<close>, the token triple and \<open>userId\<close> of the exchange response;
  \<open>status\<close> and the new token pair of the refresh response.\<close>

record preauth_response =
  pre_status :: bool
  pre_code :: "string option"

record authenticate_response =
  auth_status :: bool
  auth_idToken :: "string option"
  auth_accessToken :: "string option"
  auth_refreshToken :: "string option"
  auth_userId :: "string option"

record refresh_response =
  refresh_status :: "string option"
  newAccessToken :: "string option"
  newRefreshToken :: "string option"

text \<open>Every call of a helper is recorded, in order. \<open>RefreshCall\<close> carries the access and
  refresh token the \<open>TokenManager\<close> of line 51 was built with.\<close>

datatype call =
    VerifyCall string
  | PkceCall
  | PreAuthCall preauth_args
  | AuthenticateCall authenticate_args
  | LogoutCall logout_args
  | RefreshCall "string option" "string option" refresh_args

text \<open>
  The helpers are parameters of the model. Each one maps the calls made so far and its
  arguments to what it does this time, so that a helper may answer differently each time
  it is called, and may reject.
\<close>

record env =
  uuidv4 :: "call list \<Rightarrow> string"
  pkceChallengePair :: "call list \<Rightarrow> error + pkce_pair"
  verifyAndExtractToken :: "call list \<Rightarrow> string \<Rightarrow> error + jwt option"
  getPreAuthCode :: "call list \<Rightarrow> preauth_args \<Rightarrow> error + preauth_response"
  authenticateUser :: "call list \<Rightarrow> authenticate_args \<Rightarrow> error + authenticate_response"
  logoutUser :: "call list \<Rightarrow> logout_args \<Rightarrow> error + unit"
  refreshtoken ::
    "call list \<Rightarrow> string option \<Rightarrow> string option \<Rightarrow> refresh_args \<Rightarrow> error + refresh_response"

section \<open>The component's state\<close>

text \<open>
  \<open>idToken\<close>, \<open>accessToken\<close>, \<open>refreshToken\<close> and \<open>nonce\<close> are the four
  slots of \<open>useLocalStorage\<close>: \<open>None\<close> is the \<open>null\<close> an empty slot reads as,
  the setter stores its argument and the remover empties the slot (a setter given an
  absent value leaves the slot empty). \<open>calls\<close> is the record of the helper calls.
\<close>

record world =
  authState :: auth_state
  idToken :: "string option"
  accessToken :: "string option"
  refreshToken :: "string option"
  nonce :: "string option"
  effectDidRun :: bool
  calls :: "call list"

definition record_call :: "call \<Rightarrow> world \<Rightarrow> world" where
  "record_call c w = w\<lparr>calls := calls w @ [c]\<rparr>"

text \<open>The state of the first render: the initial \<open>authState\<close> of lines 53-58 over
  whatever the four slots hold, the effect not yet run, no call made.\<close>

definition initial_world ::
  "string option \<Rightarrow> string option \<Rightarrow> string option \<Rightarrow> string option \<Rightarrow> world" where
  "initial_world i a r n =
     \<lparr>authState = \<lparr>isLoading = True, isAuthenticated = False, user = None,
                   logoutReason = Some []\<rparr>,
      idToken = i, accessToken = a, refreshToken = r, nonce = n,
      effectDidRun = False, calls = []\<rparr>"

section \<open>The operations\<close>

text \<open>
  An operation reads \<open>authState\<close> and the slots as its render captured them and queues
  its writes. It is modelled as a function of the world it starts in (which is also what
  its closure captured) to its result and the world it leaves; a rejected promise is the
  result \<open>Inl Thrown\<close>, with the world as it was when the exception was thrown.
\<close>

text \<open>\<open>await f(...); return v\<close>: when the awaited call rejects, the exception
  goes on; when it resolves, the result is \<open>v\<close>.\<close>

definition then_return :: "'b \<Rightarrow> (error + 'a) \<times> world \<Rightarrow> (error + 'b) \<times> world" where
  "then_return v r = (case r of (Inl x, w) \<Rightarrow> (Inl x, w) | (Inr _, w) \<Rightarrow> (Inr v, w))"

text \<open>\<open>removeStateAndLocalStorage\<close>, lines 60-75.\<close>

definition removeStateAndLocalStorage :: "string option \<Rightarrow> world \<Rightarrow> world" where
  "removeStateAndLocalStorage reason w =
     w\<lparr>authState := \<lparr>isLoading = True, isAuthenticated = False, user = None,
                      logoutReason = Some (or_else reason EXPIRED_SESSION)\<rparr>,
       idToken := None, accessToken := None, refreshToken := None, nonce := None\<rparr>"

text \<open>\<open>invalidateAndLogout\<close>, lines 77-92. The tokens sent to \<open>logoutUser\<close> are
  the ones the closure captured (\<open>snap\<close>), not the slots just emptied.\<close>

definition invalidateAndLogout ::
  "props \<Rightarrow> env \<Rightarrow> world \<Rightarrow> string \<Rightarrow> world \<Rightarrow> (error + unit) \<times> world" where
  "invalidateAndLogout p e snap message w =
     (let w1 = removeStateAndLocalStorage (Some (or_else (Some message) EXPIRED_SESSION)) w;
          args = \<lparr>lo_idToken = idToken snap, lo_accessToken = accessToken snap,
                  lo_refreshToken = refreshToken snap, lo_clientId = clientId p\<rparr>;
          w2 = record_call (LogoutCall args) w1
      in case logoutUser e (calls w1) args of
           Inl x \<Rightarrow> (Inl x, w2)
         | Inr _ \<Rightarrow> (Inr (), w2\<lparr>authState := (authState w2)\<lparr>isLoading := False\<rparr>\<rparr>))"

text \<open>The body of the \<open>try\<close> block of the effect, lines 106-119.\<close>

definition bootstrap_try :: "props \<Rightarrow> env \<Rightarrow> world \<Rightarrow> string \<Rightarrow> (error + unit) \<times> world" where
  "bootstrap_try p e w t =
     (let w1 = record_call (VerifyCall t) w in
      case verifyAndExtractToken e (calls w) t of
        Inl x \<Rightarrow> (Inl x, w1)
      | Inr None \<Rightarrow> invalidateAndLogout p e w EXPIRED_SESSION w1
      | Inr (Some j) \<Rightarrow>
          if payload_userId j \<noteq> Some [] then
            (Inr (), w1\<lparr>authState :=
               \<lparr>isLoading = False, isAuthenticated = True,
                user = Some \<lparr>userId = payload_userId j, username = payload_username j\<rparr>,
                logoutReason = Some []\<rparr>\<rparr>)
          else invalidateAndLogout p e w EXPIRED_SESSION w1)"

text \<open>The body of the effect of lines 99-133, past the guard: the \<open>try\<close> block and
  its \<open>catch\<close> when an identity token is stored and the session is loading, the plain
  end of loading otherwise.\<close>

definition bootstrap_effect :: "props \<Rightarrow> env \<Rightarrow> world \<Rightarrow> (error + unit) \<times> world" where
  "bootstrap_effect p e w =
     (case (if isLoading (authState w) then idToken w else None) of
        Some t \<Rightarrow>
          (case bootstrap_try p e w t of
             (Inl _, w1) \<Rightarrow> invalidateAndLogout p e w EXPIRED_SESSION w1
           | (Inr u, w1) \<Rightarrow> (Inr u, w1))
      | None \<Rightarrow> (Inr (), w\<lparr>authState := (authState w)\<lparr>isLoading := False\<rparr>\<rparr>))"

text \<open>The effect of lines 99-133. The flag \<open>effectDidRunRef\<close> is set by the effect's
  cleanup, which runs before the effect runs again: the body runs once.\<close>

definition bootstrap :: "props \<Rightarrow> env \<Rightarrow> world \<Rightarrow> (error + unit) \<times> world" where
  "bootstrap p e w =
     (if effectDidRun w then (Inr (), w)
      else (let r = bootstrap_effect p e w in (fst r, (snd r)\<lparr>effectDidRun := True\<rparr>)))"

text \<open>The success branch of \<open>login\<close> for the CODE grant, lines 164-176.\<close>

definition login_success_code :: "string \<Rightarrow> authenticate_response \<Rightarrow> world \<Rightarrow> world" where
  "login_success_code uname response w =
     w\<lparr>idToken := auth_idToken response,
       accessToken := auth_accessToken response,
       refreshToken := auth_refreshToken response,
       authState := \<lparr>isLoading = False, isAuthenticated = True,
                      user = Some \<lparr>userId = auth_userId response, username = Some uname\<rparr>,
                      logoutReason = Some []\<rparr>\<rparr>"

text \<open>The success branch of \<open>login\<close> for the PASSWORD grant, lines 193-204: the object
  given to \<open>setAuthState\<close> has no \<open>logoutReason\<close>.\<close>

definition login_success_password :: "string \<Rightarrow> authenticate_response \<Rightarrow> world \<Rightarrow> world" where
  "login_success_password uname response w =
     w\<lparr>idToken := auth_idToken response,
       accessToken := auth_accessToken response,
       refreshToken := auth_refreshToken response,
       authState := \<lparr>isLoading = False, isAuthenticated = True,
                      user = Some \<lparr>userId = auth_userId response, username = Some uname\<rparr>,
                      logoutReason = None\<rparr>\<rparr>"

text \<open>\<open>login\<close>, lines 135-208; \<open>uname\<close> is the parameter \<open>username\<close>.
  No call is inside a \<open>try\<close> block.\<close>

definition login ::
  "props \<Rightarrow> env \<Rightarrow> string \<Rightarrow> string \<Rightarrow> auth_type \<Rightarrow> world \<Rightarrow> (error + bool) \<times> world" where
  "login p e uname password type w =
     (let new_nonce = uuidv4 e (calls w);
          w1 = w\<lparr>nonce := Some new_nonce, authState := (authState w)\<lparr>isLoading := True\<rparr>\<rparr>
      in
        if type = CODE then
          (let w2 = record_call PkceCall w1 in
           case pkceChallengePair e (calls w1) of
             Inl x \<Rightarrow> (Inl x, w2)
           | Inr pk \<Rightarrow>
              (let pargs = \<lparr>pa_nonce = new_nonce, pa_clientId = clientId p,
                            pa_code_challenge = code_challenge pk\<rparr>;
                   w3 = record_call (PreAuthCall pargs) w2
               in case getPreAuthCode e (calls w2) pargs of
                    Inl x \<Rightarrow> (Inl x, w3)
                  | Inr preResponse \<Rightarrow>
                      if pre_status preResponse then
                        (let aargs = \<lparr>au_username = uname, au_password = password,
                                      au_clientId = clientId p,
                                      au_sessionExpiration = sessionExpiration p,
                                      au_nonce = new_nonce, au_type = type,
                                      au_code = pre_code preResponse,
                                      au_code_verifier = Some (code_verifier pk)\<rparr>;
                             w4 = record_call (AuthenticateCall aargs) w3
                         in case authenticateUser e (calls w3) aargs of
                              Inl x \<Rightarrow> (Inl x, w4)
                            | Inr response \<Rightarrow>
                                if auth_status response then
                                  (Inr True, login_success_code uname response w4)
                                else
                                  (Inr False, removeStateAndLocalStorage (Some LOGIN_ERROR) w4))
                      else (Inr False, w3)))
        else
          (let aargs = \<lparr>au_username = uname, au_password = password,
                        au_clientId = clientId p,
                        au_sessionExpiration = sessionExpiration p,
                        au_nonce = new_nonce, au_type = type,
                        au_code = None, au_code_verifier = None\<rparr>;
               w2 = record_call (AuthenticateCall aargs) w1
           in case authenticateUser e (calls w1) aargs of
                Inl x \<Rightarrow> (Inl x, w2)
              | Inr response \<Rightarrow>
                  if auth_status response then
                    (Inr True, login_success_password uname response w2)
                  else
                    (Inr False, removeStateAndLocalStorage (Some LOGIN_ERROR) w2)))"

text \<open>\<open>logout\<close>, lines 210-213 (the event's \<open>preventDefault\<close> is not modelled).\<close>

definition logout :: "props \<Rightarrow> env \<Rightarrow> world \<Rightarrow> (error + unit) \<times> world" where
  "logout p e w = invalidateAndLogout p e w LOGOUT_SESSION w"

text \<open>The silent refresh of \<open>getAccessToken\<close>, lines 229-243, reached when the access
  token is falsy or did not verify. \<open>w\<close> is the world the closure captured, \<open>w1\<close>
  the current one.\<close>

definition getAccessToken_refresh ::
  "props \<Rightarrow> env \<Rightarrow> world \<Rightarrow> world \<Rightarrow> (error + string option) \<times> world" where
  "getAccessToken_refresh p e w w1 =
     (let args = \<lparr>rf_clientId = clientId p,
                  rf_userId = (case user (authState w) of None \<Rightarrow> None | Some u \<Rightarrow> userId u),
                  rf_nonce = nonce w\<rparr>;
          w2 = record_call (RefreshCall (accessToken w) (refreshToken w) args) w1
      in case refreshtoken e (calls w1) (accessToken w) (refreshToken w) args of
           Inl x \<Rightarrow> (Inl x, w2)
         | Inr res \<Rightarrow>
             if refresh_status res = Some ''success'' then
               (Inr (newAccessToken res),
                w2\<lparr>accessToken := newAccessToken res, refreshToken := newRefreshToken res\<rparr>)
             else
               then_return (Some []) (invalidateAndLogout p e w ACCESS_TOKEN_ERROR w2))"

text \<open>The body of the \<open>try\<close> block of \<open>getAccessToken\<close>, lines 218-246.\<close>

definition getAccessToken_try ::
  "props \<Rightarrow> env \<Rightarrow> world \<Rightarrow> (error + string option) \<times> world" where
  "getAccessToken_try p e w =
     (if isAuthenticated (authState w) \<and>
         (case user (authState w) of None \<Rightarrow> False | Some u \<Rightarrow> truthy (userId u)) then
        (case accessToken w of
           None \<Rightarrow> getAccessToken_refresh p e w w
         | Some t \<Rightarrow>
             if t = [] then getAccessToken_refresh p e w w
             else
               (let w1 = record_call (VerifyCall t) w in
                case verifyAndExtractToken e (calls w) t of
                  Inl x \<Rightarrow> (Inl x, w1)
                | Inr None \<Rightarrow> getAccessToken_refresh p e w w1
                | Inr (Some j) \<Rightarrow>
                    if payload_userId j \<noteq> Some [] then (Inr (accessToken w), w1)
                    else getAccessToken_refresh p e w w1))
      else
        then_return (Some []) (invalidateAndLogout p e w ACCESS_TOKEN_ERROR w))"

text \<open>\<open>getAccessToken\<close>, lines 215-251: the \<open>catch\<close> block invalidates and returns
  the empty string; an exception of the \<open>catch\<close> block itself is not caught.\<close>

definition getAccessToken :: "props \<Rightarrow> env \<Rightarrow> world \<Rightarrow> (error + string option) \<times> world" where
  "getAccessToken p e w =
     (case getAccessToken_try p e w of
        (Inl _, w1) \<Rightarrow> then_return (Some []) (invalidateAndLogout p e w ACCESS_TOKEN_ERROR w1)
      | (Inr v, w1) \<Rightarrow> (Inr v, w1))"

text \<open>\<open>getIdToken\<close>, lines 253-257: \<open>None\<close> is the \<open>undefined\<close> of a function
  that returns nothing. It sets nothing and calls no helper.\<close>

definition getIdToken :: "world \<Rightarrow> string option \<times> world" where
  "getIdToken w =
     (if isAuthenticated (authState w) \<and> truthy (idToken w) then (idToken w, w)
      else (None, w))"

section \<open>Sequences of operations\<close>

text \<open>The operations of the component, each with the helpers' behaviour during it.\<close>

datatype action =
    Bootstrap env
  | Login env string string auth_type
  | Logout env
  | GetAccessToken env
  | GetIdToken
  | RemoveStateAndLocalStorage "string option"
  | InvalidateAndLogout env string

fun step :: "props \<Rightarrow> action \<Rightarrow> world \<Rightarrow> world" where
  "step p (Bootstrap e) w = snd (bootstrap p e w)"
| "step p (Login e uname password type) w = snd (login p e uname password type w)"
| "step p (Logout e) w = snd (logout p e w)"
| "step p (GetAccessToken e) w = snd (getAccessToken p e w)"
| "step p GetIdToken w = snd (getIdToken w)"
| "step p (RemoveStateAndLocalStorage reason) w = removeStateAndLocalStorage reason w"
| "step p (InvalidateAndLogout e message) w = snd (invalidateAndLogout p e w message w)"

fun run :: "props \<Rightarrow> action list \<Rightarrow> world \<Rightarrow> world" where
  "run p [] w = w"
| "run p (a # as) w = run p as (step p a w)"

section \<open>Observations of a world\<close>

text \<open>The session is marked authenticated exactly when it holds a user object.\<close>

definition session_invariant :: "world \<Rightarrow> bool" where
  "session_invariant w = (isAuthenticated (authState w) = (user (authState w) \<noteq> None))"

text \<open>The refresh calls among the recorded helper calls.\<close>

fun is_refresh :: "call \<Rightarrow> bool" where
  "is_refresh (RefreshCall a r x) = True"
| "is_refresh c = False"

section \<open>Concrete scenarios\<close>

text \<open>A configuration, and helpers that all succeed: the validator accepts every token as
  alice's, the exchange returns the triple I1, A1, R1 for the user u2, the refresh
  returns the pair A2, R2.\<close>

definition props0 :: props where
  "props0 = \<lparr>clientId = ''app'', sessionExpiration = None\<rparr>"

definition env_ok :: env where
  "env_ok =
     \<lparr>uuidv4 = (\<lambda>h. ''n1''),
      pkceChallengePair = (\<lambda>h. Inr \<lparr>code_verifier = ''v1'', code_challenge = ''c1''\<rparr>),
      verifyAndExtractToken =
        (\<lambda>h t. Inr (Some \<lparr>payload_userId = Some ''u1'', payload_username = Some ''alice''\<rparr>)),
      getPreAuthCode = (\<lambda>h a. Inr \<lparr>pre_status = True, pre_code = Some ''C1''\<rparr>),
      authenticateUser =
        (\<lambda>h a. Inr \<lparr>auth_status = True, auth_idToken = Some ''I1'',
                      auth_accessToken = Some ''A1'', auth_refreshToken = Some ''R1'',
                      auth_userId = Some ''u2''\<rparr>),
      logoutUser = (\<lambda>h a. Inr ()),
      refreshtoken =
        (\<lambda>h a r x. Inr \<lparr>refresh_status = Some ''success'', newAccessToken = Some ''A2'',
                          newRefreshToken = Some ''R2''\<rparr>)\<rparr>"

text \<open>The same helpers, with one of them failing.\<close>

definition env_preauth_rejects :: env where
  "env_preauth_rejects =
     env_ok\<lparr>getPreAuthCode := (\<lambda>h a. Inr \<lparr>pre_status = False, pre_code = None\<rparr>)\<rparr>"

definition env_exchange_throws :: env where
  "env_exchange_throws = env_ok\<lparr>authenticateUser := (\<lambda>h a. Inl Thrown)\<rparr>"

definition env_logout_throws :: env where
  "env_logout_throws = env_ok\<lparr>logoutUser := (\<lambda>h a. Inl Thrown)\<rparr>"

definition env_verify_throws :: env where
  "env_verify_throws = env_ok\<lparr>verifyAndExtractToken := (\<lambda>h t. Inl Thrown)\<rparr>"

definition env_verify_invalid :: env where
  "env_verify_invalid = env_ok\<lparr>verifyAndExtractToken := (\<lambda>h t. Inr None)\<rparr>"

text \<open>The world after the first render with empty storage, once the effect has run; and the
  world after a successful CODE login of bob from there.\<close>

definition world_signed_out :: world where
  "world_signed_out = snd (bootstrap props0 env_ok (initial_world None None None None))"

definition world_signed_in :: world where
  "world_signed_in = snd (login props0 env_ok ''bob'' ''pw'' CODE world_signed_out)"

text \<open>Two authenticated worlds whose user has no usable id: the first render with the
  stored tokens I0, A0, R0 and a validator whose JWT lacks the user id; and a PASSWORD login
  of bob whose exchange response carries the empty string as user id.\<close>

definition env_jwt_no_userid :: env where
  "env_jwt_no_userid =
     env_ok\<lparr>verifyAndExtractToken :=
       (\<lambda>h t. Inr (Some \<lparr>payload_userId = None, payload_username = Some ''alice''\<rparr>))\<rparr>"

definition env_exchange_empty_userid :: env where
  "env_exchange_empty_userid =
     env_ok\<lparr>authenticateUser :=
       (\<lambda>h a. Inr \<lparr>auth_status = True, auth_idToken = Some ''I1'',
                     auth_accessToken = Some ''A1'', auth_refreshToken = Some ''R1'',
                     auth_userId = Some []\<rparr>)\<rparr>"

definition world_bootstrapped_no_userid :: world where
  "world_bootstrapped_no_userid =
     snd (bootstrap props0 env_jwt_no_userid
            (initial_world (Some ''I0'') (Some ''A0'') (Some ''R0'') (Some ''n0'')))"

definition world_signed_in_empty_userid :: world where
  "world_signed_in_empty_userid =
     snd (login props0 env_exchange_empty_userid ''bob'' ''pw'' PASSWORD world_signed_out)"

section \<open>The scenarios, evaluated\<close>

lemma world_signed_out_eq:
  "world_signed_out =
     \<lparr>authState = \<lparr>isLoading = False, isAuthenticated = False, user = None,
                   logoutReason = Some []\<rparr>,
      idToken = None, accessToken = None, refreshToken = None, nonce = None,
      effectDidRun = True, calls = []\<rparr>"
  by (simp add: world_signed_out_def bootstrap_def bootstrap_effect_def initial_world_def)

lemma world_signed_in_eq:
  "world_signed_in =
     \<lparr>authState = \<lparr>isLoading = False, isAuthenticated = True,
                   user = Some \<lparr>userId = Some ''u2'', username = Some ''bob''\<rparr>,
                   logoutReason = Some []\<rparr>,
      idToken = Some ''I1'', accessToken = Some ''A1'', refreshToken = Some ''R1'',
      nonce = Some ''n1'', effectDidRun = True,
      calls = [PkceCall,
               PreAuthCall \<lparr>pa_nonce = ''n1'', pa_clientId = ''app'', pa_code_challenge = ''c1''\<rparr>,
               AuthenticateCall
                 \<lparr>au_username = ''bob'', au_password = ''pw'', au_clientId = ''app'',
                  au_sessionExpiration = None, au_nonce = ''n1'', au_type = CODE,
                  au_code = Some ''C1'', au_code_verifier = Some ''v1''\<rparr>]\<rparr>"
  by (simp add: world_signed_in_def world_signed_out_eq login_def Let_def env_ok_def
        props0_def record_call_def login_success_code_def)

lemma world_bootstrapped_no_userid_eq:
  "world_bootstrapped_no_userid =
     \<lparr>authState = \<lparr>isLoading = False, isAuthenticated = True,
                   user = Some \<lparr>userId = None, username = Some ''alice''\<rparr>,
                   logoutReason = Some []\<rparr>,
      idToken = Some ''I0'', accessToken = Some ''A0'', refreshToken = Some ''R0'',
      nonce = Some ''n0'', effectDidRun = True, calls = [VerifyCall ''I0'']\<rparr>"
  by (simp add: world_bootstrapped_no_userid_def bootstrap_def bootstrap_effect_def
        bootstrap_try_def initial_world_def record_call_def Let_def env_jwt_no_userid_def
        env_ok_def)

lemma world_signed_in_empty_userid_eq:
  "world_signed_in_empty_userid =
     \<lparr>authState = \<lparr>isLoading = False, isAuthenticated = True,
                   user = Some \<lparr>userId = Some [], username = Some ''bob''\<rparr>,
                   logoutReason = None\<rparr>,
      idToken = Some ''I1'', accessToken = Some ''A1'', refreshToken = Some ''R1'',
      nonce = Some ''n1'', effectDidRun = True,
      calls = [AuthenticateCall
                 \<lparr>au_username = ''bob'', au_password = ''pw'', au_clientId = ''app'',
                  au_sessionExpiration = None, au_nonce = ''n1'', au_type = PASSWORD,
                  au_code = None, au_code_verifier = None\<rparr>]\<rparr>"
  by (simp add: world_signed_in_empty_userid_def world_signed_out_eq login_def Let_def
        env_exchange_empty_userid_def env_ok_def props0_def record_call_def
        login_success_password_def)

section \<open>Invalidation\<close>

lemma removeStateAndLocalStorage_slots:
  "idToken (removeStateAndLocalStorage reason w) = None"
  "accessToken (removeStateAndLocalStorage reason w) = None"
  "refreshToken (removeStateAndLocalStorage reason w) = None"
  "nonce (removeStateAndLocalStorage reason w) = None"
  by (simp_all add: removeStateAndLocalStorage_def)

lemma invalidateAndLogout_slots:
  "idToken (snd (invalidateAndLogout p e snap message w)) = None"
  "accessToken (snd (invalidateAndLogout p e snap message w)) = None"
  "refreshToken (snd (invalidateAndLogout p e snap message w)) = None"
  "nonce (snd (invalidateAndLogout p e snap message w)) = None"
  by (simp_all add: invalidateAndLogout_def Let_def record_call_def
        removeStateAndLocalStorage_def split: sum.split)

lemma invalidateAndLogout_calls:
  "calls (snd (invalidateAndLogout p e snap message w)) =
     calls w @ [LogoutCall \<lparr>lo_idToken = idToken snap, lo_accessToken = accessToken snap,
                  lo_refreshToken = refreshToken snap, lo_clientId = clientId p\<rparr>]"
  by (simp add: invalidateAndLogout_def Let_def record_call_def
        removeStateAndLocalStorage_def split: sum.split)

lemma invalidateAndLogout_session:
  "isAuthenticated (authState (snd (invalidateAndLogout p e snap message w))) = False"
  "user (authState (snd (invalidateAndLogout p e snap message w))) = None"
  "logoutReason (authState (snd (invalidateAndLogout p e snap message w))) =
     Some (or_else (Some message) EXPIRED_SESSION)"
  by (simp_all add: invalidateAndLogout_def Let_def record_call_def or_else_def
        removeStateAndLocalStorage_def split: sum.split)

lemma invalidateAndLogout_result:
  "fst (invalidateAndLogout p e snap message w) =
     (case logoutUser e (calls w)
             \<lparr>lo_idToken = idToken snap, lo_accessToken = accessToken snap,
              lo_refreshToken = refreshToken snap, lo_clientId = clientId p\<rparr> of
        Inl x \<Rightarrow> Inl x | Inr _ \<Rightarrow> Inr ())"
  by (simp add: invalidateAndLogout_def Let_def record_call_def
        removeStateAndLocalStorage_def split: sum.split)

lemma then_return_simps:
  "snd (then_return v r) = snd r"
  "fst (then_return v r) = (case fst r of Inl x \<Rightarrow> Inl x | Inr u \<Rightarrow> Inr v)"
  by (cases r; cases "fst r"; simp add: then_return_def)+

text \<open>
  Claim C4. After the Invalidate operation, in either form
  (\<open>removeStateAndLocalStorage\<close> or \<open>invalidateAndLogout\<close>), from any state and
  whatever \<open>logoutUser\<close> does (also when it rejects), the four persisted slots
  \<open>idToken\<close>, \<open>accessToken\<close>, \<open>refreshToken\<close> and \<open>nonce\<close> are empty.
\<close>

theorem invalidate_clears_slots:
  "idToken (removeStateAndLocalStorage reason w) = None \<and>
   accessToken (removeStateAndLocalStorage reason w) = None \<and>
   refreshToken (removeStateAndLocalStorage reason w) = None \<and>
   nonce (removeStateAndLocalStorage reason w) = None \<and>
   idToken (snd (invalidateAndLogout p e snap message w)) = None \<and>
   accessToken (snd (invalidateAndLogout p e snap message w)) = None \<and>
   refreshToken (snd (invalidateAndLogout p e snap message w)) = None \<and>
   nonce (snd (invalidateAndLogout p e snap message w)) = None"
  by (simp add: removeStateAndLocalStorage_slots invalidateAndLogout_slots)

section \<open>The invariant of the session state\<close>

lemma invariant_initial_world: "session_invariant (initial_world i a r n)"
  by (simp add: session_invariant_def initial_world_def)

lemma invariant_removeStateAndLocalStorage:
  "session_invariant (removeStateAndLocalStorage reason w)"
  by (simp add: session_invariant_def removeStateAndLocalStorage_def)

lemma invariant_invalidateAndLogout:
  "session_invariant (snd (invalidateAndLogout p e snap message w))"
  by (simp add: session_invariant_def invalidateAndLogout_session)

lemma invariant_record_call:
  "session_invariant (record_call c w) = session_invariant w"
  by (simp add: session_invariant_def record_call_def)

lemma invariant_bootstrap_try:
  "session_invariant w \<Longrightarrow> session_invariant (snd (bootstrap_try p e w t))"
  by (simp add: bootstrap_try_def Let_def invariant_invalidateAndLogout invariant_record_call
        split: sum.split option.split)
     (simp add: session_invariant_def record_call_def)

lemma invariant_effectDidRun:
  "session_invariant (w\<lparr>effectDidRun := b\<rparr>) = session_invariant w"
  by (simp add: session_invariant_def)

lemma invariant_bootstrap_effect:
  assumes "session_invariant w"
  shows "session_invariant (snd (bootstrap_effect p e w))"
proof (cases "if isLoading (authState w) then idToken w else None")
  case None
  then show ?thesis using assms
    by (simp add: bootstrap_effect_def session_invariant_def)
next
  case (Some t)
  obtain r w1 where tr: "bootstrap_try p e w t = (r, w1)"
    by (cases "bootstrap_try p e w t")
  have w1: "session_invariant w1"
    using invariant_bootstrap_try [OF assms, of p e t] tr by simp
  show ?thesis using Some tr w1
    by (cases r) (simp_all add: bootstrap_effect_def invariant_invalidateAndLogout)
qed

lemma invariant_bootstrap:
  "session_invariant w \<Longrightarrow> session_invariant (snd (bootstrap p e w))"
  by (simp add: bootstrap_def Let_def invariant_effectDidRun invariant_bootstrap_effect)

lemma invariant_login:
  assumes "session_invariant w"
  shows "session_invariant (snd (login p e uname password type w))"
proof -
  have start: "session_invariant
      (w\<lparr>nonce := Some n, authState := (authState w)\<lparr>isLoading := True\<rparr>\<rparr>)" for n
    using assms by (simp add: session_invariant_def)
  have ok1: "session_invariant (login_success_code uname response w')" for response w'
    by (simp add: session_invariant_def login_success_code_def)
  have ok2: "session_invariant (login_success_password uname response w')" for response w'
    by (simp add: session_invariant_def login_success_password_def)
  show ?thesis
    by (simp add: login_def Let_def invariant_record_call start ok1 ok2
          invariant_removeStateAndLocalStorage split: sum.split)
qed

lemma invariant_getAccessToken_refresh:
  assumes "session_invariant w1"
  shows "session_invariant (snd (getAccessToken_refresh p e w w1))"
proof -
  have upd: "session_invariant (w'\<lparr>accessToken := x, refreshToken := y\<rparr>) = session_invariant w'"
    for w' x y by (simp add: session_invariant_def)
  show ?thesis using assms
    by (simp add: getAccessToken_refresh_def Let_def upd invariant_record_call
          then_return_simps invariant_invalidateAndLogout split: sum.split)
qed

lemma invariant_getAccessToken_try:
  assumes "session_invariant w"
  shows "session_invariant (snd (getAccessToken_try p e w))"
  using assms
  by (simp add: getAccessToken_try_def Let_def invariant_record_call then_return_simps
        invariant_invalidateAndLogout invariant_getAccessToken_refresh
        split: sum.split option.split)

lemma invariant_getAccessToken:
  assumes "session_invariant w"
  shows "session_invariant (snd (getAccessToken p e w))"
proof -
  obtain r w1 where tr: "getAccessToken_try p e w = (r, w1)"
    by (cases "getAccessToken_try p e w")
  have w1: "session_invariant w1"
    using invariant_getAccessToken_try [OF assms, of p e] tr by simp
  show ?thesis using tr w1
    by (cases r) (simp_all add: getAccessToken_def then_return_simps
          invariant_invalidateAndLogout)
qed

lemma invariant_step:
  "session_invariant w \<Longrightarrow> session_invariant (step p a w)"
  by (cases a)
     (simp_all add: invariant_bootstrap invariant_login invariant_getAccessToken logout_def
        invariant_invalidateAndLogout invariant_removeStateAndLocalStorage getIdToken_def)

lemma invariant_run:
  "session_invariant w \<Longrightarrow> session_invariant (run p acts w)"
  by (induction acts arbitrary: w) (simp_all add: invariant_step)

text \<open>
  Claim C5. In every state reached from the first render (any content of the four slots)
  by any sequence of Bootstrap, login, logout, getAccessToken, getIdToken and Invalidate
  operations, whatever the helpers do during each of them, \<open>isAuthenticated\<close> is true
  if and only if the \<open>user\<close> field is present.
\<close>

theorem reachable_authenticated_iff_user:
  "isAuthenticated (authState (run p acts (initial_world i a r n))) =
     (user (authState (run p acts (initial_world i a r n))) \<noteq> None)"
proof -
  have "session_invariant (run p acts (initial_world i a r n))"
    by (rule invariant_run) (rule invariant_initial_world)
  then show ?thesis by (simp add: session_invariant_def)
qed

section \<open>Bootstrap\<close>

text \<open>
  Claim C6. Bootstrap is a function of the stored slots and of the validator's answer.
  On the first render, if an identity token \<open>t\<close> is stored and the validator returns
  for it a JWT with the user id \<open>uid\<close>, not empty, and the user name \<open>un\<close> (the
  claim's instance is u1 and alice), Bootstrap leaves the session authenticated with that
  user and \<open>logoutReason\<close> the empty string. If no identity token is stored, it leaves
  the session not loading, not authenticated, without user and with \<open>logoutReason\<close>
  the empty string, and no helper was called.
\<close>

theorem bootstrap_deterministic:
  "(verifyAndExtractToken e [] t =
      Inr (Some \<lparr>payload_userId = Some uid, payload_username = Some un\<rparr>) \<and> uid \<noteq> [] \<longrightarrow>
    bootstrap p e (initial_world (Some t) a r n) =
      (Inr (),
       \<lparr>authState = \<lparr>isLoading = False, isAuthenticated = True,
                     user = Some \<lparr>userId = Some uid, username = Some un\<rparr>,
                     logoutReason = Some []\<rparr>,
        idToken = Some t, accessToken = a, refreshToken = r, nonce = n,
        effectDidRun = True, calls = [VerifyCall t]\<rparr>)) \<and>
   bootstrap p e (initial_world None a r n) =
      (Inr (),
       \<lparr>authState = \<lparr>isLoading = False, isAuthenticated = False, user = None,
                     logoutReason = Some []\<rparr>,
        idToken = None, accessToken = a, refreshToken = r, nonce = n,
        effectDidRun = True, calls = []\<rparr>)"
  by (simp add: bootstrap_def bootstrap_effect_def bootstrap_try_def initial_world_def
        record_call_def Let_def)

theorem bootstrap_deterministic_witness:
  "verifyAndExtractToken env_ok [] ''I0'' =
      Inr (Some \<lparr>payload_userId = Some ''u1'', payload_username = Some ''alice''\<rparr>) \<and>
   bootstrap props0 env_ok (initial_world (Some ''I0'') None None None) =
      (Inr (),
       \<lparr>authState = \<lparr>isLoading = False, isAuthenticated = True,
                     user = Some \<lparr>userId = Some ''u1'', username = Some ''alice''\<rparr>,
                     logoutReason = Some []\<rparr>,
        idToken = Some ''I0'', accessToken = None, refreshToken = None, nonce = None,
        effectDidRun = True, calls = [VerifyCall ''I0'']\<rparr>)"
proof -
  have h: "verifyAndExtractToken env_ok [] ''I0'' =
      Inr (Some \<lparr>payload_userId = Some ''u1'', payload_username = Some ''alice''\<rparr>)"
    by (simp add: env_ok_def)
  have ne: "''u1'' \<noteq> []" by simp
  show ?thesis
    using h ne
      bootstrap_deterministic [of env_ok "''I0''" "''u1''" "''alice''" props0 None None None]
    by blast
qed

section \<open>The identity token\<close>

text \<open>
  Claim C10. \<open>getIdToken\<close> returns the stored identity token when the session is
  authenticated and the slot holds a string that is not empty; in every other case (not
  authenticated, or the slot empty or holding the empty string) it returns nothing. It
  leaves the state as it is and records no helper call.
\<close>

theorem getIdToken_result:
  "(isAuthenticated (authState w) \<and> idToken w = Some t \<and> t \<noteq> [] \<longrightarrow>
      fst (getIdToken w) = Some t) \<and>
   (\<not> isAuthenticated (authState w) \<or> idToken w = None \<or> idToken w = Some [] \<longrightarrow>
      fst (getIdToken w) = None) \<and>
   snd (getIdToken w) = w"
  by (auto simp add: getIdToken_def truthy_def)

theorem getIdToken_result_witness:
  "fst (getIdToken world_signed_in) = Some ''I1'' \<and>
   fst (getIdToken world_signed_out) = None \<and>
   snd (getIdToken world_signed_in) = world_signed_in"
proof -
  have h1: "isAuthenticated (authState world_signed_in) \<and>
            idToken world_signed_in = Some ''I1'' \<and> ''I1'' \<noteq> []"
    by (simp add: world_signed_in_eq)
  have h2: "\<not> isAuthenticated (authState world_signed_out)"
    by (simp add: world_signed_out_eq)
  show ?thesis
    using h1 h2 getIdToken_result [of world_signed_in "''I1''"]
      getIdToken_result [of world_signed_out "''I1''"]
    by blast
qed

section \<open>Login with the CODE grant\<close>

text \<open>
  Claim C8. In a login of type CODE, when \<open>getPreAuthCode\<close> returns a response whose
  status is false, \<open>login\<close> returns false, the only helpers called are the PKCE
  generator and \<open>getPreAuthCode\<close> (\<open>authenticateUser\<close> is not called), and the three
  token slots are as they were: no token is persisted.
\<close>

theorem login_code_preauth_rejected:
  assumes "pkceChallengePair e (calls w) = Inr pk"
    and "getPreAuthCode e (calls w @ [PkceCall])
           \<lparr>pa_nonce = uuidv4 e (calls w), pa_clientId = clientId p,
            pa_code_challenge = code_challenge pk\<rparr> = Inr preResponse"
    and "\<not> pre_status preResponse"
  shows "fst (login p e uname password CODE w) = Inr False \<and>
         calls (snd (login p e uname password CODE w)) =
           calls w @ [PkceCall,
                      PreAuthCall \<lparr>pa_nonce = uuidv4 e (calls w), pa_clientId = clientId p,
                                   pa_code_challenge = code_challenge pk\<rparr>] \<and>
         idToken (snd (login p e uname password CODE w)) = idToken w \<and>
         accessToken (snd (login p e uname password CODE w)) = accessToken w \<and>
         refreshToken (snd (login p e uname password CODE w)) = refreshToken w"
  using assms by (simp add: login_def Let_def record_call_def)

theorem login_code_preauth_rejected_witness:
  "pkceChallengePair env_preauth_rejects (calls world_signed_out) =
     Inr \<lparr>code_verifier = ''v1'', code_challenge = ''c1''\<rparr> \<and>
   getPreAuthCode env_preauth_rejects (calls world_signed_out @ [PkceCall])
     \<lparr>pa_nonce = ''n1'', pa_clientId = ''app'', pa_code_challenge = ''c1''\<rparr> =
     Inr \<lparr>pre_status = False, pre_code = None\<rparr> \<and>
   fst (login props0 env_preauth_rejects ''bob'' ''pw'' CODE world_signed_out) = Inr False \<and>
   calls (snd (login props0 env_preauth_rejects ''bob'' ''pw'' CODE world_signed_out)) =
     [PkceCall,
      PreAuthCall \<lparr>pa_nonce = ''n1'', pa_clientId = ''app'', pa_code_challenge = ''c1''\<rparr>] \<and>
   idToken (snd (login props0 env_preauth_rejects ''bob'' ''pw'' CODE world_signed_out)) = None \<and>
   accessToken (snd (login props0 env_preauth_rejects ''bob'' ''pw'' CODE world_signed_out)) = None \<and>
   refreshToken (snd (login props0 env_preauth_rejects ''bob'' ''pw'' CODE world_signed_out)) = None"
proof -
  have h1: "pkceChallengePair env_preauth_rejects (calls world_signed_out) =
      Inr \<lparr>code_verifier = ''v1'', code_challenge = ''c1''\<rparr>"
    by (simp add: env_preauth_rejects_def env_ok_def)
  have h2: "getPreAuthCode env_preauth_rejects (calls world_signed_out @ [PkceCall])
      \<lparr>pa_nonce = uuidv4 env_preauth_rejects (calls world_signed_out),
       pa_clientId = clientId props0,
       pa_code_challenge = code_challenge \<lparr>code_verifier = ''v1'', code_challenge = ''c1''\<rparr>\<rparr> =
      Inr \<lparr>pre_status = False, pre_code = None\<rparr>"
    by (simp add: env_preauth_rejects_def env_ok_def)
  have h3: "\<not> pre_status \<lparr>pre_status = False, pre_code = None\<rparr>" by simp
  have v: "uuidv4 env_preauth_rejects h = ''n1''" "clientId props0 = ''app''" for h
    by (simp_all add: env_preauth_rejects_def env_ok_def props0_def)
  have w: "calls world_signed_out = []" "idToken world_signed_out = None"
          "accessToken world_signed_out = None" "refreshToken world_signed_out = None"
    by (simp_all add: world_signed_out_eq)
  show ?thesis
    using login_code_preauth_rejected [OF h1 h2 h3, of "''bob''" "''pw''"] h1 h2
    by (simp add: v w)
qed

section \<open>The access token\<close>

lemma getAccessToken_refresh_success:
  assumes "refreshtoken e (calls w1) (accessToken w) (refreshToken w)
             \<lparr>rf_clientId = clientId p,
              rf_userId = (case user (authState w) of None \<Rightarrow> None | Some u \<Rightarrow> userId u),
              rf_nonce = nonce w\<rparr> = Inr res"
    and "refresh_status res = Some ''success''"
  shows "getAccessToken_refresh p e w w1 =
           (Inr (newAccessToken res),
            w1\<lparr>calls := calls w1 @
                  [RefreshCall (accessToken w) (refreshToken w)
                     \<lparr>rf_clientId = clientId p,
                      rf_userId = (case user (authState w) of None \<Rightarrow> None | Some u \<Rightarrow> userId u),
                      rf_nonce = nonce w\<rparr>],
               accessToken := newAccessToken res, refreshToken := newRefreshToken res\<rparr>)"
  using assms by (simp add: getAccessToken_refresh_def Let_def record_call_def)

lemma getAccessToken_refresh_calls:
  "take (Suc (length (calls w1))) (calls (snd (getAccessToken_refresh p e w w1))) =
     calls w1 @
       [RefreshCall (accessToken w) (refreshToken w)
          \<lparr>rf_clientId = clientId p,
           rf_userId = (case user (authState w) of None \<Rightarrow> None | Some u \<Rightarrow> userId u),
           rf_nonce = nonce w\<rparr>]"
  by (simp add: getAccessToken_refresh_def Let_def record_call_def then_return_simps
        invalidateAndLogout_calls split: sum.split)

lemma getAccessToken_of_try:
  "getAccessToken_try p e w = (Inr v, w1) \<Longrightarrow> getAccessToken p e w = (Inr v, w1)"
  "getAccessToken_try p e w = (Inl x, w1) \<Longrightarrow>
     getAccessToken p e w = then_return (Some []) (invalidateAndLogout p e w ACCESS_TOKEN_ERROR w1)"
  by (simp_all add: getAccessToken_def)


lemma getAccessToken_refresh_count:
  "filter is_refresh (calls (snd (getAccessToken_refresh p e w w1))) =
     filter is_refresh (calls w1) @
       [RefreshCall (accessToken w) (refreshToken w)
          \<lparr>rf_clientId = clientId p,
           rf_userId = (case user (authState w) of None \<Rightarrow> None | Some u \<Rightarrow> userId u),
           rf_nonce = nonce w\<rparr>]"
  by (simp add: getAccessToken_refresh_def Let_def record_call_def then_return_simps
        invalidateAndLogout_calls split: sum.split)

lemma getAccessToken_count_of_try:
  "filter is_refresh (calls (snd (getAccessToken p e w))) =
     filter is_refresh (calls (snd (getAccessToken_try p e w)))"
proof -
  obtain r w1 where tr: "getAccessToken_try p e w = (r, w1)"
    by (cases "getAccessToken_try p e w")
  show ?thesis using tr
    by (cases r)
       (simp_all add: getAccessToken_of_try then_return_simps invalidateAndLogout_calls)
qed

text \<open>
  Claim C7 as stated fails. A session can be authenticated with a user whose id is absent
  (the first render with a JWT that lacks the user id) or is the empty string (a login
  whose exchange response carries it). From either, with a stored access token that the
  validator would report invalid and a refresh call that would succeed,
  \<open>getAccessToken\<close> fails the guard of line 218: it calls neither the validator nor
  the refresh, calls \<open>logoutUser\<close>, empties the slots and returns the empty string.
  And from the signed-in world of bob, whose user id is u2, a validator that throws on the
  stored access token leads to the same end, again with no refresh call.
\<close>

theorem getAccessToken_no_refresh_without_userid:
  "isAuthenticated (authState world_bootstrapped_no_userid) \<and>
   user (authState world_bootstrapped_no_userid) =
     Some \<lparr>userId = None, username = Some ''alice''\<rparr> \<and>
   accessToken world_bootstrapped_no_userid = Some ''A0'' \<and>
   verifyAndExtractToken env_verify_invalid (calls world_bootstrapped_no_userid) ''A0'' =
     Inr None \<and>
   fst (getAccessToken props0 env_verify_invalid world_bootstrapped_no_userid) =
     Inr (Some []) \<and>
   calls (snd (getAccessToken props0 env_verify_invalid world_bootstrapped_no_userid)) =
     calls world_bootstrapped_no_userid @
       [LogoutCall \<lparr>lo_idToken = Some ''I0'', lo_accessToken = Some ''A0'',
                    lo_refreshToken = Some ''R0'', lo_clientId = ''app''\<rparr>] \<and>
   filter is_refresh
     (calls (snd (getAccessToken props0 env_verify_invalid world_bootstrapped_no_userid))) = [] \<and>
   accessToken (snd (getAccessToken props0 env_verify_invalid world_bootstrapped_no_userid)) =
     None \<and>
   isAuthenticated (authState world_signed_in_empty_userid) \<and>
   user (authState world_signed_in_empty_userid) =
     Some \<lparr>userId = Some [], username = Some ''bob''\<rparr> \<and>
   accessToken world_signed_in_empty_userid = Some ''A1'' \<and>
   fst (getAccessToken props0 env_verify_invalid world_signed_in_empty_userid) =
     Inr (Some []) \<and>
   calls (snd (getAccessToken props0 env_verify_invalid world_signed_in_empty_userid)) =
     calls world_signed_in_empty_userid @
       [LogoutCall \<lparr>lo_idToken = Some ''I1'', lo_accessToken = Some ''A1'',
                    lo_refreshToken = Some ''R1'', lo_clientId = ''app''\<rparr>] \<and>
   filter is_refresh
     (calls (snd (getAccessToken props0 env_verify_invalid world_signed_in_empty_userid))) = [] \<and>
   accessToken (snd (getAccessToken props0 env_verify_invalid world_signed_in_empty_userid)) =
     None \<and>
   user (authState world_signed_in) = Some \<lparr>userId = Some ''u2'', username = Some ''bob''\<rparr> \<and>
   verifyAndExtractToken env_verify_throws (calls world_signed_in) ''A1'' = Inl Thrown \<and>
   filter is_refresh (calls (snd (getAccessToken props0 env_verify_throws world_signed_in))) = [] \<and>
   accessToken (snd (getAccessToken props0 env_verify_throws world_signed_in)) = None"
  by (simp add: world_bootstrapped_no_userid_eq world_signed_in_empty_userid_eq
        world_signed_in_eq getAccessToken_def getAccessToken_try_def
        invalidateAndLogout_def removeStateAndLocalStorage_def
        then_return_def record_call_def Let_def truthy_def or_else_def
        env_verify_invalid_def env_verify_throws_def env_ok_def props0_def)

text \<open>
  Claim C7, amended. Refresh rotation. In a session that is authenticated with a user whose
  id is not empty (the guard of line 218), when the stored access token is absent, empty,
  or reported invalid by a validator that returns (no JWT, or a JWT whose user id is
  empty), \<open>getAccessToken\<close> makes exactly one refresh call, whatever that call does.
  When the call returns the status "success" with the new pair \<open>a2\<close>, \<open>r2\<close>
  (the claim's instance is A2, R2), \<open>getAccessToken\<close> returns \<open>a2\<close>, the
  access and refresh slots hold \<open>a2\<close> and \<open>r2\<close>, the helper calls made are
  the validation of the stored token, if there was one, and the refresh call, and the
  session state, the identity token and the nonce are as they were.
\<close>

theorem getAccessToken_refresh_rotation:
  assumes auth: "isAuthenticated (authState w)" "user (authState w) = Some u" "truthy (userId u)"
    and pre: "pre = (case accessToken w of None \<Rightarrow> []
                     | Some t \<Rightarrow> if t = [] then [] else [VerifyCall t])"
    and invalid: "case accessToken w of None \<Rightarrow> True
                  | Some t \<Rightarrow> t = [] \<or> verifyAndExtractToken e (calls w) t = Inr None \<or>
                      (\<exists>j. verifyAndExtractToken e (calls w) t = Inr (Some j) \<and>
                           payload_userId j = Some [])"
  shows "filter is_refresh (calls (snd (getAccessToken p e w))) =
           filter is_refresh (calls w) @
             [RefreshCall (accessToken w) (refreshToken w)
                \<lparr>rf_clientId = clientId p, rf_userId = userId u, rf_nonce = nonce w\<rparr>] \<and>
         (refreshtoken e (calls w @ pre) (accessToken w) (refreshToken w)
            \<lparr>rf_clientId = clientId p, rf_userId = userId u, rf_nonce = nonce w\<rparr> =
          Inr \<lparr>refresh_status = Some ''success'', newAccessToken = Some a2,
               newRefreshToken = Some r2\<rparr> \<longrightarrow>
          getAccessToken p e w =
            (Inr (Some a2),
             w\<lparr>calls := calls w @ pre @
                  [RefreshCall (accessToken w) (refreshToken w)
                     \<lparr>rf_clientId = clientId p, rf_userId = userId u, rf_nonce = nonce w\<rparr>],
               accessToken := Some a2, refreshToken := Some r2\<rparr>))"
proof (intro conjI impI)
  let ?res = "\<lparr>refresh_status = Some ''success'', newAccessToken = Some a2,
               newRefreshToken = Some r2\<rparr>"
  let ?w1 = "w\<lparr>calls := calls w @ pre\<rparr>"
  have args: "(case user (authState w) of None \<Rightarrow> None | Some u \<Rightarrow> userId u) = userId u"
    using auth by simp
  have tr: "getAccessToken_try p e w = getAccessToken_refresh p e w ?w1"
    using auth invalid pre
    by (auto simp add: getAccessToken_try_def Let_def record_call_def split: option.splits)
  have quiet: "filter is_refresh pre = []"
    using pre by (simp split: option.split)
  show "filter is_refresh (calls (snd (getAccessToken p e w))) =
           filter is_refresh (calls w) @
             [RefreshCall (accessToken w) (refreshToken w)
                \<lparr>rf_clientId = clientId p, rf_userId = userId u, rf_nonce = nonce w\<rparr>]"
    by (simp add: getAccessToken_count_of_try tr getAccessToken_refresh_count args quiet)
  assume refresh: "refreshtoken e (calls w @ pre) (accessToken w) (refreshToken w)
            \<lparr>rf_clientId = clientId p, rf_userId = userId u, rf_nonce = nonce w\<rparr> = Inr ?res"
  have step: "getAccessToken_refresh p e w ?w1 =
           (Inr (Some a2),
            w\<lparr>calls := calls w @ pre @
                 [RefreshCall (accessToken w) (refreshToken w)
                    \<lparr>rf_clientId = clientId p, rf_userId = userId u, rf_nonce = nonce w\<rparr>],
              accessToken := Some a2, refreshToken := Some r2\<rparr>)"
    using getAccessToken_refresh_success [of e ?w1 w p ?res] refresh
    by (simp add: args)
  show "getAccessToken p e w =
            (Inr (Some a2),
             w\<lparr>calls := calls w @ pre @
                  [RefreshCall (accessToken w) (refreshToken w)
                     \<lparr>rf_clientId = clientId p, rf_userId = userId u, rf_nonce = nonce w\<rparr>],
               accessToken := Some a2, refreshToken := Some r2\<rparr>)"
    using tr step by (simp add: getAccessToken_of_try)
qed

theorem getAccessToken_refresh_rotation_witness:
  "isAuthenticated (authState world_signed_in) \<and>
   accessToken world_signed_in = Some ''A1'' \<and>
   verifyAndExtractToken env_verify_invalid (calls world_signed_in) ''A1'' = Inr None \<and>
   filter is_refresh (calls (snd (getAccessToken props0 env_verify_invalid world_signed_in))) =
     [RefreshCall (Some ''A1'') (Some ''R1'')
        \<lparr>rf_clientId = ''app'', rf_userId = Some ''u2'', rf_nonce = Some ''n1''\<rparr>] \<and>
   getAccessToken props0 env_verify_invalid world_signed_in =
     (Inr (Some ''A2''),
      world_signed_in\<lparr>calls := calls world_signed_in @ [VerifyCall ''A1''] @
           [RefreshCall (Some ''A1'') (Some ''R1'')
              \<lparr>rf_clientId = ''app'', rf_userId = Some ''u2'', rf_nonce = Some ''n1''\<rparr>],
         accessToken := Some ''A2'', refreshToken := Some ''R2''\<rparr>)"
proof -
  let ?u = "\<lparr>userId = Some ''u2'', username = Some ''bob''\<rparr>"
  have a1: "isAuthenticated (authState world_signed_in)"
    and a2: "user (authState world_signed_in) = Some ?u"
    and a3: "truthy (userId ?u)"
    by (simp_all add: world_signed_in_eq truthy_def)
  have tok: "accessToken world_signed_in = Some ''A1''"
    by (simp add: world_signed_in_eq)
  have pre: "[VerifyCall ''A1''] =
      (case accessToken world_signed_in of None \<Rightarrow> []
       | Some t \<Rightarrow> if t = [] then [] else [VerifyCall t])"
    by (simp add: tok)
  have ver: "verifyAndExtractToken env_verify_invalid (calls world_signed_in) ''A1'' = Inr None"
    by (simp add: env_verify_invalid_def)
  have invalid: "case accessToken world_signed_in of None \<Rightarrow> True
      | Some t \<Rightarrow> t = [] \<or>
          verifyAndExtractToken env_verify_invalid (calls world_signed_in) t = Inr None \<or>
          (\<exists>j. verifyAndExtractToken env_verify_invalid (calls world_signed_in) t = Inr (Some j) \<and>
               payload_userId j = Some [])"
    by (simp add: tok ver)
  have refresh: "refreshtoken env_verify_invalid (calls world_signed_in @ [VerifyCall ''A1''])
      (accessToken world_signed_in) (refreshToken world_signed_in)
      \<lparr>rf_clientId = clientId props0, rf_userId = userId ?u,
       rf_nonce = nonce world_signed_in\<rparr> =
      Inr \<lparr>refresh_status = Some ''success'', newAccessToken = Some ''A2'',
           newRefreshToken = Some ''R2''\<rparr>"
    by (simp add: env_verify_invalid_def env_ok_def)
  have v: "clientId props0 = ''app''" "refreshToken world_signed_in = Some ''R1''"
    "nonce world_signed_in = Some ''n1''" "userId ?u = Some ''u2''"
    "filter is_refresh (calls world_signed_in) = []"
    by (simp_all add: props0_def world_signed_in_eq)
  show ?thesis
    using getAccessToken_refresh_rotation
            [OF a1 a2 a3 pre invalid, of props0 "''A2''" "''R2''"] refresh a1 tok ver
    by (simp add: v)
qed

section \<open>A validator that throws\<close>

text \<open>
  Claim C2 as stated fails: with a signed-in session whose stored access token is A1 and a
  validator that throws, \<open>getAccessToken\<close> calls the validator and then
  \<open>logoutUser\<close>; it makes no refresh call, empties the slots and returns the empty
  string. With a validator that reports the same token invalid, it makes the refresh call
  and returns the new access token A2.
\<close>

theorem getAccessToken_verify_throws_no_refresh:
  "isAuthenticated (authState world_signed_in) \<and>
   accessToken world_signed_in = Some ''A1'' \<and>
   verifyAndExtractToken env_verify_throws (calls world_signed_in) ''A1'' = Inl Thrown \<and>
   fst (getAccessToken props0 env_verify_throws world_signed_in) = Inr (Some []) \<and>
   calls (snd (getAccessToken props0 env_verify_throws world_signed_in)) =
     calls world_signed_in @
       [VerifyCall ''A1'',
        LogoutCall \<lparr>lo_idToken = Some ''I1'', lo_accessToken = Some ''A1'',
                    lo_refreshToken = Some ''R1'', lo_clientId = ''app''\<rparr>] \<and>
   refreshToken (snd (getAccessToken props0 env_verify_throws world_signed_in)) = None \<and>
   verifyAndExtractToken env_verify_invalid (calls world_signed_in) ''A1'' = Inr None \<and>
   fst (getAccessToken props0 env_verify_invalid world_signed_in) = Inr (Some ''A2'') \<and>
   calls (snd (getAccessToken props0 env_verify_invalid world_signed_in)) =
     calls world_signed_in @
       [VerifyCall ''A1'',
        RefreshCall (Some ''A1'') (Some ''R1'')
          \<lparr>rf_clientId = ''app'', rf_userId = Some ''u2'', rf_nonce = Some ''n1''\<rparr>]"
  by (simp add: world_signed_in_eq getAccessToken_def getAccessToken_try_def
        getAccessToken_refresh_def invalidateAndLogout_def removeStateAndLocalStorage_def
        then_return_def record_call_def Let_def truthy_def or_else_def
        env_verify_throws_def env_verify_invalid_def env_ok_def props0_def
        ACCESS_TOKEN_ERROR_def)

text \<open>
  Claim C2, amended. In \<open>getAccessToken\<close>, with a session authenticated for a user
  whose id is not empty and a stored access token \<open>t\<close> that is not empty:
  when the validator reports \<open>t\<close> invalid (no JWT, or a JWT whose user id is empty),
  the refresh call is made next, before any invalidation; when the validator throws, no
  refresh call is made: \<open>logoutUser\<close> is called next, the session is invalidated with
  the reason "access token error", the four slots are emptied, and the result is the
  empty string if \<open>logoutUser\<close> resolves.
\<close>

theorem getAccessToken_verify_outcomes:
  assumes auth: "isAuthenticated (authState w)" "user (authState w) = Some u" "truthy (userId u)"
    and tok: "accessToken w = Some t" "t \<noteq> []"
  shows "(verifyAndExtractToken e (calls w) t = Inr None \<or>
          (\<exists>j. verifyAndExtractToken e (calls w) t = Inr (Some j) \<and> payload_userId j = Some [])
          \<longrightarrow>
            take (length (calls w) + 2) (calls (snd (getAccessToken p e w))) =
              calls w @
                [VerifyCall t,
                 RefreshCall (accessToken w) (refreshToken w)
                   \<lparr>rf_clientId = clientId p, rf_userId = userId u, rf_nonce = nonce w\<rparr>]) \<and>
         (verifyAndExtractToken e (calls w) t = Inl Thrown \<longrightarrow>
            calls (snd (getAccessToken p e w)) =
              calls w @
                [VerifyCall t,
                 LogoutCall \<lparr>lo_idToken = idToken w, lo_accessToken = accessToken w,
                             lo_refreshToken = refreshToken w, lo_clientId = clientId p\<rparr>] \<and>
            \<not> isAuthenticated (authState (snd (getAccessToken p e w))) \<and>
            user (authState (snd (getAccessToken p e w))) = None \<and>
            logoutReason (authState (snd (getAccessToken p e w))) = Some ACCESS_TOKEN_ERROR \<and>
            idToken (snd (getAccessToken p e w)) = None \<and>
            accessToken (snd (getAccessToken p e w)) = None \<and>
            refreshToken (snd (getAccessToken p e w)) = None \<and>
            nonce (snd (getAccessToken p e w)) = None \<and>
            (logoutUser e (calls w @ [VerifyCall t])
               \<lparr>lo_idToken = idToken w, lo_accessToken = accessToken w,
                lo_refreshToken = refreshToken w, lo_clientId = clientId p\<rparr> = Inr () \<longrightarrow>
             fst (getAccessToken p e w) = Inr (Some [])))"
proof (intro conjI impI)
  let ?w1 = "w\<lparr>calls := calls w @ [VerifyCall t]\<rparr>"
  assume "verifyAndExtractToken e (calls w) t = Inr None \<or>
          (\<exists>j. verifyAndExtractToken e (calls w) t = Inr (Some j) \<and> payload_userId j = Some [])"
  then have tr: "getAccessToken_try p e w = getAccessToken_refresh p e w ?w1"
    using auth tok
    by (auto simp add: getAccessToken_try_def Let_def record_call_def)
  have args: "(case user (authState w) of None \<Rightarrow> None | Some u \<Rightarrow> userId u) = userId u"
    using auth by simp
  have first: "take (length (calls w) + 2) (calls (snd (getAccessToken_refresh p e w ?w1))) =
      calls w @ [VerifyCall t,
                 RefreshCall (accessToken w) (refreshToken w)
                   \<lparr>rf_clientId = clientId p, rf_userId = userId u, rf_nonce = nonce w\<rparr>]"
    using getAccessToken_refresh_calls [of ?w1 p e w] by (simp add: args)
  obtain r w2 where res: "getAccessToken_refresh p e w ?w1 = (r, w2)"
    by (cases "getAccessToken_refresh p e w ?w1")
  have len: "length (calls w) + 2 \<le> length (calls w2)"
    using first res
    by (metis add_2_eq_Suc' length_append length_take list.size(3,4) min.cobounded1 snd_conv
          add.commute add_Suc_right add_0 plus_1_eq_Suc)
  show "take (length (calls w) + 2) (calls (snd (getAccessToken p e w))) =
      calls w @ [VerifyCall t,
                 RefreshCall (accessToken w) (refreshToken w)
                   \<lparr>rf_clientId = clientId p, rf_userId = userId u, rf_nonce = nonce w\<rparr>]"
  proof (cases r)
    case (Inr v)
    then show ?thesis using tr res first by (simp add: getAccessToken_of_try)
  next
    case (Inl x)
    then have "calls (snd (getAccessToken p e w)) = calls w2 @
        [LogoutCall \<lparr>lo_idToken = idToken w, lo_accessToken = accessToken w,
                     lo_refreshToken = refreshToken w, lo_clientId = clientId p\<rparr>]"
      using tr res
      by (simp add: getAccessToken_of_try then_return_simps invalidateAndLogout_calls)
    then show ?thesis using first res len by simp
  qed
next
  let ?w1 = "w\<lparr>calls := calls w @ [VerifyCall t]\<rparr>"
  let ?args = "\<lparr>lo_idToken = idToken w, lo_accessToken = accessToken w,
                lo_refreshToken = refreshToken w, lo_clientId = clientId p\<rparr>"
  assume thr: "verifyAndExtractToken e (calls w) t = Inl Thrown"
  have tr: "getAccessToken_try p e w = (Inl Thrown, ?w1)"
    using auth tok thr by (simp add: getAccessToken_try_def Let_def record_call_def)
  have eq: "getAccessToken p e w =
      then_return (Some []) (invalidateAndLogout p e w ACCESS_TOKEN_ERROR ?w1)"
    using tr by (rule getAccessToken_of_try(2))
  show "calls (snd (getAccessToken p e w)) = calls w @ [VerifyCall t, LogoutCall ?args]"
    by (simp add: eq then_return_simps invalidateAndLogout_calls)
  show "\<not> isAuthenticated (authState (snd (getAccessToken p e w)))"
    by (simp add: eq then_return_simps invalidateAndLogout_session)
  show "user (authState (snd (getAccessToken p e w))) = None"
    by (simp add: eq then_return_simps invalidateAndLogout_session)
  show "logoutReason (authState (snd (getAccessToken p e w))) = Some ACCESS_TOKEN_ERROR"
    by (simp add: eq then_return_simps invalidateAndLogout_session or_else_def
          ACCESS_TOKEN_ERROR_def)
  show "idToken (snd (getAccessToken p e w)) = None"
    by (simp add: eq then_return_simps invalidateAndLogout_slots)
  show "accessToken (snd (getAccessToken p e w)) = None"
    by (simp add: eq then_return_simps invalidateAndLogout_slots)
  show "refreshToken (snd (getAccessToken p e w)) = None"
    by (simp add: eq then_return_simps invalidateAndLogout_slots)
  show "nonce (snd (getAccessToken p e w)) = None"
    by (simp add: eq then_return_simps invalidateAndLogout_slots)
  assume "logoutUser e (calls w @ [VerifyCall t]) ?args = Inr ()"
  then show "fst (getAccessToken p e w) = Inr (Some [])"
    by (simp add: eq then_return_simps invalidateAndLogout_result)
qed

theorem getAccessToken_verify_outcomes_witness:
  "verifyAndExtractToken env_verify_throws (calls world_signed_in) ''A1'' = Inl Thrown \<and>
   fst (getAccessToken props0 env_verify_throws world_signed_in) = Inr (Some []) \<and>
   logoutReason (authState (snd (getAccessToken props0 env_verify_throws world_signed_in))) =
     Some ACCESS_TOKEN_ERROR \<and>
   accessToken (snd (getAccessToken props0 env_verify_throws world_signed_in)) = None \<and>
   verifyAndExtractToken env_verify_invalid (calls world_signed_in) ''A1'' = Inr None \<and>
   take (length (calls world_signed_in) + 2)
        (calls (snd (getAccessToken props0 env_verify_invalid world_signed_in))) =
     calls world_signed_in @
       [VerifyCall ''A1'',
        RefreshCall (Some ''A1'') (Some ''R1'')
          \<lparr>rf_clientId = ''app'', rf_userId = Some ''u2'', rf_nonce = Some ''n1''\<rparr>]"
proof -
  let ?u = "\<lparr>userId = Some ''u2'', username = Some ''bob''\<rparr>"
  have a1: "isAuthenticated (authState world_signed_in)"
    and a2: "user (authState world_signed_in) = Some ?u"
    and a3: "truthy (userId ?u)"
    and t1: "accessToken world_signed_in = Some ''A1''"
    and t2: "''A1'' \<noteq> []"
    by (simp_all add: world_signed_in_eq truthy_def)
  have thr: "verifyAndExtractToken env_verify_throws (calls world_signed_in) ''A1'' = Inl Thrown"
    by (simp add: env_verify_throws_def)
  have inv: "verifyAndExtractToken env_verify_invalid (calls world_signed_in) ''A1'' = Inr None"
    by (simp add: env_verify_invalid_def)
  have out: "logoutUser env_verify_throws h x = Inr ()" for h x
    by (simp add: env_verify_throws_def env_ok_def)
  have v: "clientId props0 = ''app''" "refreshToken world_signed_in = Some ''R1''"
    "nonce world_signed_in = Some ''n1''" "userId ?u = Some ''u2''"
    by (simp_all add: props0_def world_signed_in_eq)
  show ?thesis
    using getAccessToken_verify_outcomes [OF a1 a2 a3 t1 t2, of env_verify_throws props0]
      getAccessToken_verify_outcomes [OF a1 a2 a3 t1 t2, of env_verify_invalid props0]
      thr inv out
    by (simp add: v t1)
qed

section \<open>Exceptions of the helpers\<close>

text \<open>
  Claim C3 as stated fails: \<open>login\<close> rejects when \<open>authenticateUser\<close> throws,
  \<open>logout\<close> rejects when \<open>logoutUser\<close> throws, and \<open>getAccessToken\<close> rejects
  when \<open>logoutUser\<close> throws in its \<open>catch\<close> block.
\<close>

theorem operations_propagate_helper_exceptions:
  "fst (login props0 env_exchange_throws ''bob'' ''pw'' PASSWORD world_signed_out) = Inl Thrown \<and>
   fst (logout props0 env_logout_throws world_signed_in) = Inl Thrown \<and>
   fst (getAccessToken props0 env_logout_throws world_signed_out) = Inl Thrown"
  by (simp add: world_signed_in_eq world_signed_out_eq login_def logout_def
        getAccessToken_def getAccessToken_try_def
        invalidateAndLogout_def removeStateAndLocalStorage_def
        then_return_def record_call_def Let_def truthy_def or_else_def
        env_exchange_throws_def env_logout_throws_def env_ok_def props0_def)

lemma resolves: "r \<noteq> Inl Thrown \<Longrightarrow> \<exists>v. r = Inr v"
  by (cases r) (auto intro: error.exhaust)

lemma invalidateAndLogout_resolves:
  assumes "\<forall>h a. logoutUser e h a \<noteq> Inl Thrown"
  shows "fst (invalidateAndLogout p e snap message w) = Inr ()"
proof -
  obtain v where "logoutUser e (calls w)
      \<lparr>lo_idToken = idToken snap, lo_accessToken = accessToken snap,
       lo_refreshToken = refreshToken snap, lo_clientId = clientId p\<rparr> = Inr v"
    using assms resolves by blast
  then show ?thesis by (simp add: invalidateAndLogout_result)
qed

lemma login_resolves:
  assumes pk: "\<forall>h. pkceChallengePair e h \<noteq> Inl Thrown"
    and pa: "\<forall>h a. getPreAuthCode e h a \<noteq> Inl Thrown"
    and au: "\<forall>h a. authenticateUser e h a \<noteq> Inl Thrown"
  shows "\<exists>b. fst (login p e uname password type w) = Inr b"
proof -
  have 1: "pkceChallengePair e h = Inl x \<Longrightarrow> False" for h x
    using pk by (cases x) simp
  have 2: "getPreAuthCode e h a = Inl x \<Longrightarrow> False" for h a x
    using pa by (cases x) simp
  have 3: "authenticateUser e h a = Inl x \<Longrightarrow> False" for h a x
    using au by (cases x) simp
  show ?thesis
    by (auto simp add: login_def Let_def split: sum.split dest: 1 2 3)
qed

text \<open>
  Claim C3, amended. A public operation returns normally whenever the helpers it calls
  outside a \<open>try\<close> block resolve: \<open>login\<close> returns a boolean when the PKCE
  generator, \<open>getPreAuthCode\<close> and \<open>authenticateUser\<close> resolve; \<open>logout\<close>
  returns when \<open>logoutUser\<close> resolves; and when \<open>logoutUser\<close> resolves,
  \<open>getAccessToken\<close> returns whatever the validator and the refresh call do, an
  exception in its \<open>try\<close> block becoming the empty string and an invalidated session
  with the reason "access token error".
\<close>

theorem operations_return_when_helpers_resolve:
  "((\<forall>h. pkceChallengePair e h \<noteq> Inl Thrown) \<and>
    (\<forall>h a. getPreAuthCode e h a \<noteq> Inl Thrown) \<and>
    (\<forall>h a. authenticateUser e h a \<noteq> Inl Thrown) \<longrightarrow>
      (\<exists>b. fst (login p e uname password type w) = Inr b)) \<and>
   ((\<forall>h a. logoutUser e h a \<noteq> Inl Thrown) \<longrightarrow>
      fst (logout p e w) = Inr () \<and>
      (\<exists>v. fst (getAccessToken p e w) = Inr v) \<and>
      (fst (getAccessToken_try p e w) = Inl Thrown \<longrightarrow>
         fst (getAccessToken p e w) = Inr (Some []) \<and>
         \<not> isAuthenticated (authState (snd (getAccessToken p e w))) \<and>
         logoutReason (authState (snd (getAccessToken p e w))) = Some ACCESS_TOKEN_ERROR))"
proof (intro conjI impI)
  assume "(\<forall>h. pkceChallengePair e h \<noteq> Inl Thrown) \<and>
    (\<forall>h a. getPreAuthCode e h a \<noteq> Inl Thrown) \<and>
    (\<forall>h a. authenticateUser e h a \<noteq> Inl Thrown)"
  then show "\<exists>b. fst (login p e uname password type w) = Inr b"
    using login_resolves by blast
next
  assume lo: "\<forall>h a. logoutUser e h a \<noteq> Inl Thrown"
  show "fst (logout p e w) = Inr ()"
    using lo by (simp add: logout_def invalidateAndLogout_resolves)
  obtain r w1 where tr: "getAccessToken_try p e w = (r, w1)"
    by (cases "getAccessToken_try p e w")
  show "\<exists>v. fst (getAccessToken p e w) = Inr v"
    using tr lo
    by (cases r)
       (simp_all add: getAccessToken_of_try then_return_simps invalidateAndLogout_resolves)
  assume "fst (getAccessToken_try p e w) = Inl Thrown"
  then have eq: "getAccessToken p e w =
      then_return (Some []) (invalidateAndLogout p e w ACCESS_TOKEN_ERROR w1)"
    using tr by (simp add: getAccessToken_of_try)
  show "fst (getAccessToken p e w) = Inr (Some [])"
    using lo by (simp add: eq then_return_simps invalidateAndLogout_resolves)
  show "\<not> isAuthenticated (authState (snd (getAccessToken p e w)))"
    by (simp add: eq then_return_simps invalidateAndLogout_session)
  show "logoutReason (authState (snd (getAccessToken p e w))) = Some ACCESS_TOKEN_ERROR"
    by (simp add: eq then_return_simps invalidateAndLogout_session or_else_def
          ACCESS_TOKEN_ERROR_def)
qed

theorem operations_return_when_helpers_resolve_witness:
  "(\<exists>b. fst (login props0 env_verify_throws ''bob'' ''pw'' CODE world_signed_in) = Inr b) \<and>
   fst (logout props0 env_verify_throws world_signed_in) = Inr () \<and>
   fst (getAccessToken_try props0 env_verify_throws world_signed_in) = Inl Thrown \<and>
   fst (getAccessToken props0 env_verify_throws world_signed_in) = Inr (Some []) \<and>
   logoutReason (authState (snd (getAccessToken props0 env_verify_throws world_signed_in))) =
     Some ACCESS_TOKEN_ERROR"
proof -
  have h1: "(\<forall>h. pkceChallengePair env_verify_throws h \<noteq> Inl Thrown) \<and>
    (\<forall>h a. getPreAuthCode env_verify_throws h a \<noteq> Inl Thrown) \<and>
    (\<forall>h a. authenticateUser env_verify_throws h a \<noteq> Inl Thrown)"
    by (simp add: env_verify_throws_def env_ok_def)
  have h2: "\<forall>h a. logoutUser env_verify_throws h a \<noteq> Inl Thrown"
    by (simp add: env_verify_throws_def env_ok_def)
  have h3: "fst (getAccessToken_try props0 env_verify_throws world_signed_in) = Inl Thrown"
    by (simp add: getAccessToken_try_def world_signed_in_eq truthy_def Let_def
          env_verify_throws_def record_call_def)
  show ?thesis
    using operations_return_when_helpers_resolve
            [of env_verify_throws props0 "''bob''" "''pw''" CODE world_signed_in] h1 h2 h3
    by blast
qed

section \<open>Failed and successful logins\<close>

text \<open>
  Claim C1, evaluated where the code departs from it. A CODE login whose pre-auth call
  returns the status false returns false without calling
  \<open>removeStateAndLocalStorage\<close>: from the signed-out world the new nonce stays
  persisted, \<open>logoutReason\<close> is still the empty string and the session stays loading;
  from the signed-in world the session stays authenticated and the three tokens stay
  persisted.
\<close>

theorem login_preauth_rejected_not_invalidated:
  "login props0 env_preauth_rejects ''bob'' ''pw'' CODE world_signed_out =
     (Inr False,
      \<lparr>authState = \<lparr>isLoading = True, isAuthenticated = False, user = None,
                    logoutReason = Some []\<rparr>,
       idToken = None, accessToken = None, refreshToken = None, nonce = Some ''n1'',
       effectDidRun = True,
       calls = [PkceCall,
                PreAuthCall \<lparr>pa_nonce = ''n1'', pa_clientId = ''app'',
                             pa_code_challenge = ''c1''\<rparr>]\<rparr>) \<and>
   fst (login props0 env_preauth_rejects ''bob'' ''pw'' CODE world_signed_in) = Inr False \<and>
   authState (snd (login props0 env_preauth_rejects ''bob'' ''pw'' CODE world_signed_in)) =
     \<lparr>isLoading = True, isAuthenticated = True,
      user = Some \<lparr>userId = Some ''u2'', username = Some ''bob''\<rparr>,
      logoutReason = Some []\<rparr> \<and>
   idToken (snd (login props0 env_preauth_rejects ''bob'' ''pw'' CODE world_signed_in)) =
     Some ''I1'' \<and>
   accessToken (snd (login props0 env_preauth_rejects ''bob'' ''pw'' CODE world_signed_in)) =
     Some ''A1'' \<and>
   refreshToken (snd (login props0 env_preauth_rejects ''bob'' ''pw'' CODE world_signed_in)) =
     Some ''R1'' \<and>
   nonce (snd (login props0 env_preauth_rejects ''bob'' ''pw'' CODE world_signed_in)) =
     Some ''n1''"
  by (simp add: world_signed_in_eq world_signed_out_eq login_def Let_def record_call_def
        env_preauth_rejects_def env_ok_def props0_def)

text \<open>
  Claim C9, evaluated where the code departs from it. After a successful PASSWORD login
  the session is authenticated and \<open>logoutReason\<close> is absent (the object given to
  \<open>setAuthState\<close> has no such property), not the empty string; after a successful CODE
  login with the same helpers it is the empty string.
\<close>

theorem login_password_success_logoutReason_absent:
  "fst (login props0 env_ok ''alice'' ''pw'' PASSWORD world_signed_out) = Inr True \<and>
   authState (snd (login props0 env_ok ''alice'' ''pw'' PASSWORD world_signed_out)) =
     \<lparr>isLoading = False, isAuthenticated = True,
      user = Some \<lparr>userId = Some ''u2'', username = Some ''alice''\<rparr>,
      logoutReason = None\<rparr> \<and>
   fst (login props0 env_ok ''alice'' ''pw'' CODE world_signed_out) = Inr True \<and>
   authState (snd (login props0 env_ok ''alice'' ''pw'' CODE world_signed_out)) =
     \<lparr>isLoading = False, isAuthenticated = True,
      user = Some \<lparr>userId = Some ''u2'', username = Some ''alice''\<rparr>,
      logoutReason = Some []\<rparr>"
  by (simp add: world_signed_out_eq login_def Let_def record_call_def
        login_success_password_def login_success_code_def env_ok_def props0_def)

end
